theory Spec2Isabelle
  imports Main "HOL-Library.Word" "HOL-Library.Signed_Division"
begin

section \<open>The chunk store (go/chunks/leveldb_store.go)\<close>

subsection \<open>Values, errors and faults\<close>

text \<open>
  A Go byte slice is a list of 8-bit characters; the counters of the store are
  \<open>int64\<close>, so they are 64-bit words read as two's complement.
\<close>

type_synonym bytes = string
type_synonym int64 = "64 word"

text \<open>
  The error values the code tests or passes on: the engine's \<open>errors.ErrNotFound\<close>,
  the engine's answer on a handle that was closed, and the blob codec's answer on
  bytes it cannot decode.
\<close>

datatype err = ErrNotFound | ErrClosed | ErrCorrupt

text \<open>
  The ways a call ends without returning. \<open>ChkTrue\<close> and \<open>ChkNoError\<close> are
  the assertions \<open>d.Chk.True\<close> and \<open>d.Chk.NoError\<close>, \<open>ExpNotEmpty\<close> is
  \<open>d.Exp.NotEmpty\<close>, \<open>HashParse\<close> is the panic of \<open>hash.Parse\<close> on a string
  that is no hash; the others are faults of the Go runtime itself. \<open>Hang\<close> is a
  send on a channel that nothing will ever receive from.
\<close>

datatype panic =
    ChkTrue string
  | ChkNoError err
  | ExpNotEmpty
  | HashParse bytes
  | NilPointerDereference
  | IntegerDivideByZero
  | MakeChanSizeOutOfRange

datatype abort = Panic panic | Hang

text \<open>
  Modelled from the spec: the chunk type of this package (its declaration is not among
  the sources). A chunk is a hash and the bytes it names; \<open>NewChunkWithHash\<close> pairs
  the two as they are given, and \<open>c.Hash()\<close> and \<open>c.Data()\<close> read them back.
\<close>

record 'h Chunk =
  Hash :: 'h
  Data :: bytes

definition NewChunkWithHash :: "'h \<Rightarrow> bytes \<Rightarrow> 'h Chunk" where
  "NewChunkWithHash ref data = \<lparr>Hash = ref, Data = data\<rparr>"

text \<open>
  The packages the store imports and whose code is not part of it are parameters:
  the hash package (textual form of a hash, its parser, its digest bytes and the
  zero value \<open>hash.Hash{}\<close>), the blob codec \<open>snappy\<close>, and the package's
  \<open>EmptyChunk\<close> value. \<open>hash_Parse\<close> is \<open>None\<close> where \<open>hash.Parse\<close>
  panics, \<open>snappy_Decode\<close> is \<open>None\<close> where \<open>snappy.Decode\<close> returns an error.
\<close>

record 'h pkgs =
  hash_String :: "'h \<Rightarrow> bytes"
  hash_Parse :: "bytes \<Rightarrow> 'h option"
  hash_DigestSlice :: "'h \<Rightarrow> bytes"
  hash_zero :: 'h
  snappy_Encode :: "bytes \<Rightarrow> bytes"
  snappy_Decode :: "bytes \<Rightarrow> bytes option"
  EmptyChunk :: "'h Chunk"

subsection \<open>The embedded key-value engine\<close>

text \<open>
  Modelled from the spec: the embedded ordered key-value engine, an external
  collaborator consumed through \<open>get\<close>, \<open>has\<close>, \<open>put\<close>, \<open>batchWrite\<close> and
  \<open>close\<close>. Its contents are a finite map from keys to values; a batch is applied as
  a whole; every call on a closed handle answers \<open>ErrClosed\<close>. The journal lists
  every batch the engine was asked to write, with its \<open>Sync\<close> option, so that
  "no write was attempted" is a statement about the state. Failures of the disk
  under an open handle are not modelled.
\<close>

record leveldb_DB =
  kv :: "bytes \<rightharpoonup> bytes"
  closed :: bool
  journal :: "((bytes \<times> bytes) list \<times> bool) list"

definition db_Get :: "leveldb_DB \<Rightarrow> bytes \<Rightarrow> err + bytes" where
  "db_Get d key =
     (if closed d then Inl ErrClosed
      else case kv d key of None \<Rightarrow> Inl ErrNotFound | Some v \<Rightarrow> Inr v)"

definition db_Has :: "leveldb_DB \<Rightarrow> bytes \<Rightarrow> err + bool" where
  "db_Has d key = (if closed d then Inl ErrClosed else Inr (kv d key \<noteq> None))"

fun apply_batch :: "(bytes \<times> bytes) list \<Rightarrow> (bytes \<rightharpoonup> bytes) \<Rightarrow> (bytes \<rightharpoonup> bytes)" where
  "apply_batch [] m = m"
| "apply_batch ((k, v) # b) m = apply_batch b (m(k \<mapsto> v))"

definition db_Write :: "leveldb_DB \<Rightarrow> (bytes \<times> bytes) list \<Rightarrow> bool \<Rightarrow> err option \<times> leveldb_DB" where
  "db_Write d b sync =
     (if closed d then (Some ErrClosed, d)
      else (None, d\<lparr>kv := apply_batch b (kv d), journal := journal d @ [(b, sync)]\<rparr>))"

definition db_Put :: "leveldb_DB \<Rightarrow> bytes \<Rightarrow> bytes \<Rightarrow> bool \<Rightarrow> err option \<times> leveldb_DB" where
  "db_Put d key val sync = db_Write d [(key, val)] sync"

definition db_Close :: "leveldb_DB \<Rightarrow> leveldb_DB" where
  "db_Close d = d\<lparr>closed := True\<rparr>"

subsection \<open>The physical store\<close>

definition rootKeyConst :: bytes where
  "rootKeyConst = ''/root''"

definition chunkPrefixConst :: bytes where
  "chunkPrefixConst = ''/chunk/''"

text \<open>
  \<open>internalLevelDBStore\<close>. The mutex is not a field here: calls are taken one at a
  time, so a lock that is taken and released within one call changes nothing.
  \<open>concurrentWriteLimit\<close> is the capacity of the channel of that name; between
  calls no slot is taken.
\<close>

record internalLevelDBStore =
  db :: leveldb_DB
  concurrentWriteLimit :: nat
  getCount :: int64
  hasCount :: int64
  putCount :: int64
  putBytes :: int64
  dumpStats :: bool

text \<open>
  \<open>newBackingStore\<close>. \<open>disk\<close> is what the engine finds in the directory, the
  empty map for a new or an empty one. A failure of \<open>os.MkdirAll\<close> or of
  \<open>leveldb.OpenFile\<close> is not modelled. \<open>make(chan struct{}, n)\<close> panics on a
  negative \<open>n\<close>.
\<close>

definition newBackingStore ::
  "(bytes \<rightharpoonup> bytes) \<Rightarrow> string \<Rightarrow> int \<Rightarrow> bool \<Rightarrow> abort + internalLevelDBStore" where
  "newBackingStore disk dir maxFileHandles dumpStats' =
     (if dir = [] then Inl (Panic ExpNotEmpty)
      else if maxFileHandles < 0 then Inl (Panic MakeChanSizeOutOfRange)
      else Inr \<lparr>db = \<lparr>kv = disk, closed = False, journal = []\<rparr>,
                concurrentWriteLimit = nat maxFileHandles,
                getCount = 0, hasCount = 0, putCount = 0, putBytes = 0,
                dumpStats = dumpStats'\<rparr>)"

definition rootByKey :: "'h pkgs \<Rightarrow> internalLevelDBStore \<Rightarrow> bytes \<Rightarrow> abort + 'h" where
  "rootByKey P l key =
     (case db_Get (db l) key of
        Inl e \<Rightarrow> if e = ErrNotFound then Inr (hash_zero P) else Inl (Panic (ChkNoError e))
      | Inr val \<Rightarrow>
          (case hash_Parse P val of
             None \<Rightarrow> Inl (Panic (HashParse val))
           | Some h \<Rightarrow> Inr h))"

definition updateRootByKey ::
  "'h pkgs \<Rightarrow> internalLevelDBStore \<Rightarrow> bytes \<Rightarrow> 'h \<Rightarrow> 'h \<Rightarrow> abort + (bool \<times> internalLevelDBStore)" where
  "updateRootByKey P l key current last' =
     (case rootByKey P l key of
        Inl a \<Rightarrow> Inl a
      | Inr root \<Rightarrow>
          if last' \<noteq> root then Inr (False, l)
          else (case db_Put (db l) key (hash_String P current) True of
                  (Some e, d) \<Rightarrow> Inl (Panic (ChkNoError e))
                | (None, d) \<Rightarrow> Inr (True, l\<lparr>db := d\<rparr>)))"

definition getByKey ::
  "'h pkgs \<Rightarrow> internalLevelDBStore \<Rightarrow> bytes \<Rightarrow> 'h \<Rightarrow> abort + ('h Chunk \<times> internalLevelDBStore)" where
  "getByKey P l key ref =
     (let l' = l\<lparr>getCount := getCount l + 1\<rparr> in
      case db_Get (db l) key of
        Inl e \<Rightarrow> if e = ErrNotFound then Inr (EmptyChunk P, l') else Inl (Panic (ChkNoError e))
      | Inr compressed \<Rightarrow>
          (case snappy_Decode P compressed of
             None \<Rightarrow> Inl (Panic (ChkNoError ErrCorrupt))
           | Some data \<Rightarrow> Inr (NewChunkWithHash ref data, l')))"

definition hasByKey :: "internalLevelDBStore \<Rightarrow> bytes \<Rightarrow> abort + (bool \<times> internalLevelDBStore)" where
  "hasByKey l key =
     (case db_Has (db l) key of
        Inl e \<Rightarrow> Inl (Panic (ChkNoError e))
      | Inr exists \<Rightarrow> Inr (exists, l\<lparr>hasCount := hasCount l + 1\<rparr>))"

text \<open>
  \<open>putByKey\<close> and \<open>putBatch\<close> start by sending on \<open>concurrentWriteLimit\<close>:
  with capacity 0 and no receiver that send never returns.
\<close>

definition putByKey ::
  "'h pkgs \<Rightarrow> internalLevelDBStore \<Rightarrow> bytes \<Rightarrow> 'h Chunk \<Rightarrow> abort + internalLevelDBStore" where
  "putByKey P l key c =
     (if concurrentWriteLimit l = 0 then Inl Hang
      else
        let data = snappy_Encode P (Data c) in
        case db_Put (db l) key data False of
          (Some e, d) \<Rightarrow> Inl (Panic (ChkNoError e))
        | (None, d) \<Rightarrow>
            Inr (l\<lparr>db := d, putCount := putCount l + 1,
                   putBytes := putBytes l + of_nat (length data)\<rparr>))"

definition putBatch ::
  "internalLevelDBStore \<Rightarrow> (bytes \<times> bytes) list \<Rightarrow> nat \<Rightarrow> abort + internalLevelDBStore" where
  "putBatch l b numBytes =
     (if concurrentWriteLimit l = 0 then Inl Hang
      else
        case db_Write (db l) b False of
          (Some e, d) \<Rightarrow> Inl (Panic (ChkNoError e))
        | (None, d) \<Rightarrow>
            Inr (l\<lparr>db := d, putCount := putCount l + of_nat (length b),
                   putBytes := putBytes l + of_nat numBytes\<rparr>))"

text \<open>
  Go's \<open>/\<close> on \<open>int64\<close>: a run-time panic on a zero divisor, the quotient
  truncated towards zero otherwise.
\<close>

definition int64_div :: "int64 \<Rightarrow> int64 \<Rightarrow> panic + int64" where
  "int64_div a b =
     (if b = 0 then Inl IntegerDivideByZero else Inr (word_of_int (sint a sdiv sint b)))"

text \<open>
  \<open>internalLevelDBStore.Close\<close>. What \<open>fmt.Println\<close> writes is returned as the
  list of printed lines, a label and the number after it. Go evaluates the arguments
  of a call before the call, so the division comes before the last line is printed.
\<close>

definition internalLevelDBStore_Close ::
  "internalLevelDBStore \<Rightarrow> abort + ((string \<times> int64 option) list \<times> internalLevelDBStore)" where
  "internalLevelDBStore_Close l =
     (let l' = l\<lparr>db := db_Close (db l)\<rparr> in
      if dumpStats l then
        (case int64_div (putBytes l) (putCount l) of
           Inl p \<Rightarrow> Inl (Panic p)
         | Inr avg \<Rightarrow>
             Inr ([(''--LevelDB Stats--'', None),
                   (''GetCount: '', Some (getCount l)),
                   (''HasCount: '', Some (hasCount l)),
                   (''PutCount: '', Some (putCount l)),
                   (''Average PutSize: '', Some avg)], l'))
      else Inr ([], l'))"

subsection \<open>The namespaced chunk store\<close>

text \<open>
  \<open>LevelDBStore\<close> embeds a pointer to the physical store; \<open>None\<close> is the nil
  pointer that \<open>Close\<close> leaves. The physical store is held by value: what
  several views of one physical store see of each other is not part of this model.
\<close>

record LevelDBStore =
  internalLevelDBStore :: "internalLevelDBStore option"
  rootKey :: bytes
  chunkPrefix :: bytes
  closeBackingStore :: bool

definition copyNsAndAppend :: "bytes \<Rightarrow> string \<Rightarrow> bytes" where
  "copyNsAndAppend ns suffix = ns @ suffix"

definition newLevelDBStore :: "internalLevelDBStore \<Rightarrow> bytes \<Rightarrow> bool \<Rightarrow> LevelDBStore" where
  "newLevelDBStore store ns closeBackingStore' =
     \<lparr>internalLevelDBStore = Some store,
      rootKey = copyNsAndAppend ns rootKeyConst,
      chunkPrefix = copyNsAndAppend ns chunkPrefixConst,
      closeBackingStore = closeBackingStore'\<rparr>"

definition NewLevelDBStore ::
  "(bytes \<rightharpoonup> bytes) \<Rightarrow> string \<Rightarrow> string \<Rightarrow> int \<Rightarrow> bool \<Rightarrow> abort + LevelDBStore" where
  "NewLevelDBStore disk dir ns maxFileHandles dumpStats' =
     (case newBackingStore disk dir maxFileHandles dumpStats' of
        Inl a \<Rightarrow> Inl a
      | Inr store \<Rightarrow> Inr (newLevelDBStore store ns True))"

definition toChunkKey :: "'h pkgs \<Rightarrow> LevelDBStore \<Rightarrow> 'h \<Rightarrow> bytes" where
  "toChunkKey P l r = chunkPrefix l @ hash_DigestSlice P r"

definition afterClose :: string where
  "afterClose = ''Cannot use LevelDBStore after Close().''"

definition Root :: "'h pkgs \<Rightarrow> LevelDBStore \<Rightarrow> abort + 'h" where
  "Root P l =
     (case internalLevelDBStore l of
        None \<Rightarrow> Inl (Panic (ChkTrue afterClose))
      | Some s \<Rightarrow> rootByKey P s (rootKey l))"

definition UpdateRoot :: "'h pkgs \<Rightarrow> LevelDBStore \<Rightarrow> 'h \<Rightarrow> 'h \<Rightarrow> abort + (bool \<times> LevelDBStore)" where
  "UpdateRoot P l current last' =
     (case internalLevelDBStore l of
        None \<Rightarrow> Inl (Panic (ChkTrue afterClose))
      | Some s \<Rightarrow>
          (case updateRootByKey P s (rootKey l) current last' of
             Inl a \<Rightarrow> Inl a
           | Inr (ok, s') \<Rightarrow> Inr (ok, l\<lparr>internalLevelDBStore := Some s'\<rparr>)))"

definition Get :: "'h pkgs \<Rightarrow> LevelDBStore \<Rightarrow> 'h \<Rightarrow> abort + ('h Chunk \<times> LevelDBStore)" where
  "Get P l ref =
     (case internalLevelDBStore l of
        None \<Rightarrow> Inl (Panic (ChkTrue afterClose))
      | Some s \<Rightarrow>
          (case getByKey P s (toChunkKey P l ref) ref of
             Inl a \<Rightarrow> Inl a
           | Inr (c, s') \<Rightarrow> Inr (c, l\<lparr>internalLevelDBStore := Some s'\<rparr>)))"

definition Has :: "'h pkgs \<Rightarrow> LevelDBStore \<Rightarrow> 'h \<Rightarrow> abort + (bool \<times> LevelDBStore)" where
  "Has P l ref =
     (case internalLevelDBStore l of
        None \<Rightarrow> Inl (Panic (ChkTrue afterClose))
      | Some s \<Rightarrow>
          (case hasByKey s (toChunkKey P l ref) of
             Inl a \<Rightarrow> Inl a
           | Inr (b, s') \<Rightarrow> Inr (b, l\<lparr>internalLevelDBStore := Some s'\<rparr>)))"

definition Put :: "'h pkgs \<Rightarrow> LevelDBStore \<Rightarrow> 'h Chunk \<Rightarrow> abort + LevelDBStore" where
  "Put P l c =
     (case internalLevelDBStore l of
        None \<Rightarrow> Inl (Panic (ChkTrue afterClose))
      | Some s \<Rightarrow>
          (case putByKey P s (toChunkKey P l (Hash c)) c of
             Inl a \<Rightarrow> Inl a
           | Inr s' \<Rightarrow> Inr (l\<lparr>internalLevelDBStore := Some s'\<rparr>)))"

text \<open>
  The loop of \<open>PutMany\<close>: the batch and the byte count after the chunks, in order.
\<close>

fun PutMany_loop ::
  "'h pkgs \<Rightarrow> LevelDBStore \<Rightarrow> 'h Chunk list \<Rightarrow> nat \<times> (bytes \<times> bytes) list \<Rightarrow> nat \<times> (bytes \<times> bytes) list" where
  "PutMany_loop P l [] (numBytes, b) = (numBytes, b)"
| "PutMany_loop P l (c # chunks) (numBytes, b) =
     (let data = snappy_Encode P (Data c) in
      PutMany_loop P l chunks (numBytes + length data, b @ [(toChunkKey P l (Hash c), data)]))"

text \<open>
  \<open>PutMany\<close> has no check of the pointer. \<open>l.putBatch\<close> is a call with the nil
  pointer as receiver, and the first statement of \<open>putBatch\<close> reads a field
  through it.
\<close>

definition PutMany :: "'h pkgs \<Rightarrow> LevelDBStore \<Rightarrow> 'h Chunk list \<Rightarrow> abort + LevelDBStore" where
  "PutMany P l chunks =
     (case PutMany_loop P l chunks (0, []) of
        (numBytes, b) \<Rightarrow>
          (case internalLevelDBStore l of
             None \<Rightarrow> Inl (Panic NilPointerDereference)
           | Some s \<Rightarrow>
               (case putBatch s b numBytes of
                  Inl a \<Rightarrow> Inl a
                | Inr s' \<Rightarrow> Inr (l\<lparr>internalLevelDBStore := Some s'\<rparr>))))"

text \<open>
  \<open>LevelDBStore.Close\<close>. With \<open>closeBackingStore\<close> set, the physical store's
  \<open>Close\<close> is called on the pointer whatever it is; on nil its first statement
  reads a field through it.
\<close>

definition LevelDBStore_Close ::
  "LevelDBStore \<Rightarrow> abort + ((string \<times> int64 option) list \<times> LevelDBStore)" where
  "LevelDBStore_Close l =
     (if closeBackingStore l then
        (case internalLevelDBStore l of
           None \<Rightarrow> Inl (Panic NilPointerDereference)
         | Some s \<Rightarrow>
             (case internalLevelDBStore_Close s of
                Inl a \<Rightarrow> Inl a
              | Inr (out, s') \<Rightarrow> Inr (out, l\<lparr>internalLevelDBStore := None\<rparr>)))
      else Inr ([], l\<lparr>internalLevelDBStore := None\<rparr>))"

section \<open>The table writer (go/libraries/doltcore/mvdata/table_data_loc.go)\<close>

subsection \<open>Constants, errors and collaborators\<close>

text \<open>\<open>2 << 15\<close> and \<open>2 << 16\<close>, as the source writes them.\<close>

definition tableWriterStatUpdateRate :: int where
  "tableWriterStatUpdateRate = push_bit 15 2"

definition tableWriterGCRate :: int where
  "tableWriterGCRate = push_bit 16 2"

text \<open>
  \<open>ErrNoPK\<close> is the error value the file declares; \<open>ErrorsNew\<close> is an error made
  on the spot with \<open>errors.New\<close>; \<open>Propagated\<close> is any error a collaborator
  returned.
\<close>

datatype error = ErrNoPK | ErrorsNew string | Propagated string

text \<open>
  Modelled from the spec: the cumulative counts handed to the stats callback
  (\<open>types.AppliedEditStats\<close>, declared outside the sources), with the three fields
  this file counts in. They are \<open>int64\<close>.
\<close>

record AppliedEditStats =
  Additions :: int64
  Modifications :: int64
  SameVal :: int64

text \<open>
  The writer works through collaborators: the stats callback, the table editor of
  the edit session, the versioned database and the value store behind the root. Each
  call to one of them is an entry of a trail, in the order the calls are made. The
  row an edit carries and the stats a callback receives are part of the entry; the
  root values, hashes, tables and editors that pass from one collaborator to the next
  are not.
\<close>

datatype 'row call =
    StatsCB AppliedEditStats
  | Flush
  | WriteRootValue
  | GC
  | InsertRow 'row
  | UpdateRow 'row 'row
  | NewMap
  | MarshalSchemaAsNomsValue
  | NewTable
  | PutTable string
  | GetTable string
  | GetRowData
  | GetSchema
  | GetTableEditor string

type_synonym 'row trail = "'row call list"

text \<open>
  What the collaborators answer is a parameter. \<open>fails\<close> says whether a call
  returns an error, given the calls made before it; \<open>GetPKColsSize\<close> is
  \<open>sch.GetPKCols().Size()\<close>; \<open>NomsMapKey\<close> is \<open>r.NomsMapKey(sch).Value(ctx)\<close>;
  \<open>MaybeGet_err\<close> is the error of a lookup in the initial map, if there is one;
  \<open>FromNoms\<close> and \<open>AreEqual\<close> are the functions of the row package.
\<close>

record ('row, 'k, 'v, 'sch) collab =
  GetPKColsSize :: "'sch \<Rightarrow> int"
  NomsMapKey :: "'sch \<Rightarrow> 'row \<Rightarrow> error + 'k"
  MaybeGet_err :: "'k \<Rightarrow> error option"
  FromNoms :: "'sch \<Rightarrow> 'k \<Rightarrow> 'v \<Rightarrow> error + 'row"
  AreEqual :: "'row \<Rightarrow> 'row \<Rightarrow> 'sch \<Rightarrow> bool"
  fails :: "'row trail \<Rightarrow> 'row call \<Rightarrow> error option"

definition call ::
  "('row, 'k, 'v, 'sch) collab \<Rightarrow> 'row call \<Rightarrow> 'row trail \<Rightarrow> error option \<times> 'row trail" where
  "call E c w = (fails E w c, w @ [c])"

text \<open>
  \<open>m.MaybeGet(ctx, k)\<close> on a persistent map: the value under \<open>k\<close> if there is
  one, or the error of the read.
\<close>

definition MaybeGet ::
  "('row, 'k, 'v, 'sch) collab \<Rightarrow> ('k \<rightharpoonup> 'v) \<Rightarrow> 'k \<Rightarrow> error + 'v option" where
  "MaybeGet E m k = (case MaybeGet_err E k of Some e \<Rightarrow> Inl e | None \<Rightarrow> Inr (m k))"

subsection \<open>The writer\<close>

record TableDataLocation =
  Name :: string

text \<open>
  \<open>tableEditorWriteCloser\<close>. \<open>statsCB\<close> says whether a callback is set (is not
  nil); \<open>dEnv\<close> and \<open>tableEditor\<close> are the collaborators behind the trail.
\<close>

record ('k, 'v, 'sch) tableEditorWriteCloser =
  initialData :: "'k \<rightharpoonup> 'v"
  tableSch :: 'sch
  insertOnly :: bool
  statsCB :: bool
  stats :: AppliedEditStats
  statOps :: int64
  gcOps :: int64

definition NewCreatingWriter ::
  "('row, 'k, 'v, 'sch) collab \<Rightarrow> TableDataLocation \<Rightarrow> 'sch \<Rightarrow> bool \<Rightarrow> 'row trail
     \<Rightarrow> (error + ('k, 'v, 'sch) tableEditorWriteCloser) \<times> 'row trail" where
  "NewCreatingWriter E dl outSch statsCB' w =
     (if GetPKColsSize E outSch = 0 then (Inl ErrNoPK, w)
      else
        case call E NewMap w of
          (Some e, w1) \<Rightarrow> (Inl e, w1)
        | (None, w1) \<Rightarrow>
        case call E MarshalSchemaAsNomsValue w1 of
          (Some e, w2) \<Rightarrow> (Inl e, w2)
        | (None, w2) \<Rightarrow>
        case call E NewTable w2 of
          (Some e, w3) \<Rightarrow> (Inl e, w3)
        | (None, w3) \<Rightarrow>
        case call E (PutTable (Name dl)) w3 of
          (Some e, w4) \<Rightarrow> (Inl e, w4)
        | (None, w4) \<Rightarrow>
        case call E (GetTableEditor (Name dl)) w4 of
          (Some e, w5) \<Rightarrow> (Inl e, w5)
        | (None, w5) \<Rightarrow>
            (Inr \<lparr>initialData = Map.empty, tableSch = outSch, insertOnly = True,
                  statsCB = statsCB',
                  stats = \<lparr>Additions = 0, Modifications = 0, SameVal = 0\<rparr>,
                  statOps = 0, gcOps = 0\<rparr>, w5))"

text \<open>
  Modelled from the spec: a root value, as far as \<open>NewUpdatingWriter\<close> reads it:
  the schema and the row data of each table it has, by name.
\<close>

type_synonym ('k, 'v, 'sch) RootValue = "string \<rightharpoonup> ('sch \<times> ('k \<rightharpoonup> 'v))"

definition NewUpdatingWriter ::
  "('row, 'k, 'v, 'sch) collab \<Rightarrow> TableDataLocation \<Rightarrow> ('k, 'v, 'sch) RootValue \<Rightarrow> bool
     \<Rightarrow> 'row trail \<Rightarrow> (error + ('k, 'v, 'sch) tableEditorWriteCloser) \<times> 'row trail" where
  "NewUpdatingWriter E dl root statsCB' w =
     (case call E (GetTable (Name dl)) w of
        (Some e, w1) \<Rightarrow> (Inl e, w1)
      | (None, w1) \<Rightarrow>
      case root (Name dl) of
        None \<Rightarrow> (Inl (ErrorsNew (''Could not find table '' @ Name dl)), w1)
      | Some (tblSch, m) \<Rightarrow>
      case call E GetRowData w1 of
        (Some e, w2) \<Rightarrow> (Inl e, w2)
      | (None, w2) \<Rightarrow>
      case call E GetSchema w2 of
        (Some e, w3) \<Rightarrow> (Inl e, w3)
      | (None, w3) \<Rightarrow>
      case call E (GetTableEditor (Name dl)) w3 of
        (Some e, w4) \<Rightarrow> (Inl e, w4)
      | (None, w4) \<Rightarrow>
          (Inr \<lparr>initialData = m, tableSch = tblSch, insertOnly = False,
                statsCB = statsCB',
                stats = \<lparr>Additions = 0, Modifications = 0, SameVal = 0\<rparr>,
                statOps = 0, gcOps = 0\<rparr>, w4))"

definition GetSchema_of :: "('k, 'v, 'sch) tableEditorWriteCloser \<Rightarrow> 'sch" where
  "GetSchema_of te = tableSch te"

text \<open>
  \<open>gc\<close>: flush the editor, write the root value that gives, collect garbage; the
  first error ends it.
\<close>

definition gc :: "('row, 'k, 'v, 'sch) collab \<Rightarrow> 'row trail \<Rightarrow> error option \<times> 'row trail" where
  "gc E w =
     (case call E Flush w of
        (Some e, w1) \<Rightarrow> (Some e, w1)
      | (None, w1) \<Rightarrow>
      case call E WriteRootValue w1 of
        (Some e, w2) \<Rightarrow> (Some e, w2)
      | (None, w2) \<Rightarrow> call E GC w2)"

text \<open>
  \<open>WriteRow\<close>, statement by statement, in two definitions: the two cadence checks
  with which it starts (\<open>WriteRow_cadence\<close>, up to the return of the error of
  \<open>gc\<close>), and the whole. The atomic loads, stores and adds of the two cadence
  counters are plain reads and writes here: one call runs at a time.
\<close>

definition WriteRow_cadence ::
  "('row, 'k, 'v, 'sch) collab \<Rightarrow> ('k, 'v, 'sch) tableEditorWriteCloser \<Rightarrow> 'row trail
     \<Rightarrow> error option \<times> ('k, 'v, 'sch) tableEditorWriteCloser \<times> 'row trail" where
  "WriteRow_cadence E te w =
     (case (if statsCB te \<and> tableWriterStatUpdateRate \<le> sint (statOps te)
            then (te\<lparr>statOps := 0\<rparr>, w @ [StatsCB (stats te)])
            else (te, w)) of
        (te1, w1) \<Rightarrow>
          if tableWriterGCRate \<le> sint (gcOps te1)
          then (case gc E w1 of (e, w2) \<Rightarrow> (e, te1\<lparr>gcOps := 0\<rparr>, w2))
          else (None, te1, w1))"

definition WriteRow ::
  "('row, 'k, 'v, 'sch) collab \<Rightarrow> ('k, 'v, 'sch) tableEditorWriteCloser \<Rightarrow> 'row \<Rightarrow> 'row trail
     \<Rightarrow> error option \<times> ('k, 'v, 'sch) tableEditorWriteCloser \<times> 'row trail" where
  "WriteRow E te r w =
     (case WriteRow_cadence E te w of
        (Some e, te2, w2) \<Rightarrow> (Some e, te2, w2)
      | (None, te2, w2) \<Rightarrow>
     (let te3 = te2\<lparr>gcOps := gcOps te2 + 1\<rparr> in
      if insertOnly te3 then
        (case call E (InsertRow r) w2 of
           (e, w3) \<Rightarrow>
             (e, te3\<lparr>statOps := statOps te3 + 1,
                     stats := (stats te3)\<lparr>Additions := Additions (stats te3) + 1\<rparr>\<rparr>, w3))
      else
        (case NomsMapKey E (tableSch te3) r of
           Inl e \<Rightarrow> (Some e, te3, w2)
         | Inr pkTuple \<Rightarrow>
        (case MaybeGet E (initialData te3) pkTuple of
           Inl e \<Rightarrow> (Some e, te3, w2)
         | Inr None \<Rightarrow>
             (case call E (InsertRow r) w2 of
                (e, w3) \<Rightarrow>
                  (e, te3\<lparr>statOps := statOps te3 + 1,
                          stats := (stats te3)\<lparr>Additions := Additions (stats te3) + 1\<rparr>\<rparr>, w3))
         | Inr (Some val) \<Rightarrow>
        (case FromNoms E (tableSch te3) pkTuple val of
           Inl e \<Rightarrow> (Some e, te3, w2)
         | Inr oldRow \<Rightarrow>
             if AreEqual E r oldRow (tableSch te3) then
               (None, te3\<lparr>stats := (stats te3)\<lparr>SameVal := SameVal (stats te3) + 1\<rparr>\<rparr>, w2)
             else
               (case call E (UpdateRow oldRow r) w2 of
                  (e, w3) \<Rightarrow>
                    (e, te3\<lparr>statOps := statOps te3 + 1,
                            stats := (stats te3)\<lparr>Modifications := Modifications (stats te3) + 1\<rparr>\<rparr>,
                     w3)))))))"

text \<open>\<open>Close\<close>: one more \<open>gc\<close>, then the callback if there is one.\<close>

definition tableEditorWriteCloser_Close ::
  "('row, 'k, 'v, 'sch) collab \<Rightarrow> ('k, 'v, 'sch) tableEditorWriteCloser \<Rightarrow> 'row trail
     \<Rightarrow> error option \<times> 'row trail" where
  "tableEditorWriteCloser_Close E te w =
     (case gc E w of
        (e, w1) \<Rightarrow> (e, if statsCB te then w1 @ [StatsCB (stats te)] else w1))"

section \<open>Sessions of calls, and values to evaluate on\<close>

text \<open>
  A session on a physical store is a list of calls, run in order until one does not
  return. \<open>written\<close> lists the keys a call asks the engine to write. With them
  "a key never written" and "a later get" are statements about the code.
\<close>

datatype 'h op =
    OpRoot bytes
  | OpUpdateRoot bytes 'h 'h
  | OpGet bytes 'h
  | OpHas bytes
  | OpPut bytes "'h Chunk"
  | OpPutBatch "(bytes \<times> bytes) list" nat

fun step :: "'h pkgs \<Rightarrow> internalLevelDBStore \<Rightarrow> 'h op \<Rightarrow> abort + internalLevelDBStore" where
  "step P l (OpRoot key) = (case rootByKey P l key of Inl a \<Rightarrow> Inl a | Inr h \<Rightarrow> Inr l)"
| "step P l (OpUpdateRoot key current last') =
     (case updateRootByKey P l key current last' of Inl a \<Rightarrow> Inl a | Inr (ok, l') \<Rightarrow> Inr l')"
| "step P l (OpGet key ref) = (case getByKey P l key ref of Inl a \<Rightarrow> Inl a | Inr (c, l') \<Rightarrow> Inr l')"
| "step P l (OpHas key) = (case hasByKey l key of Inl a \<Rightarrow> Inl a | Inr (b, l') \<Rightarrow> Inr l')"
| "step P l (OpPut key c) = putByKey P l key c"
| "step P l (OpPutBatch b numBytes) = putBatch l b numBytes"

fun run :: "'h pkgs \<Rightarrow> internalLevelDBStore \<Rightarrow> 'h op list \<Rightarrow> abort + internalLevelDBStore" where
  "run P l [] = Inr l"
| "run P l (x # xs) = (case step P l x of Inl a \<Rightarrow> Inl a | Inr l' \<Rightarrow> run P l' xs)"

fun written :: "'h op \<Rightarrow> bytes list" where
  "written (OpUpdateRoot key current last') = [key]"
| "written (OpPut key c) = [key]"
| "written (OpPutBatch b numBytes) = map fst b"
| "written _ = []"

text \<open>
  Small instances of the parameters, for evaluating the definitions: hashes are their
  digest bytes, the textual form of a hash is the digest after the letter \<open>h\<close>,
  and the codec puts the letter \<open>s\<close> before the bytes; both parsers refuse
  anything else.
\<close>

definition example_pkgs :: "bytes pkgs" where
  "example_pkgs =
     \<lparr>hash_String = (\<lambda>h. CHR ''h'' # h),
      hash_Parse = (\<lambda>s. case s of [] \<Rightarrow> None | c # h \<Rightarrow> if c = CHR ''h'' then Some h else None),
      hash_DigestSlice = (\<lambda>h. h),
      hash_zero = [],
      snappy_Encode = (\<lambda>d. CHR ''s'' # d),
      snappy_Decode = (\<lambda>s. case s of [] \<Rightarrow> None | c # d \<Rightarrow> if c = CHR ''s'' then Some d else None),
      EmptyChunk = \<lparr>Hash = ''empty'', Data = []\<rparr>\<rparr>"

definition example_store :: "bool \<Rightarrow> internalLevelDBStore" where
  "example_store stats' =
     \<lparr>db = \<lparr>kv = Map.empty, closed = False, journal = []\<rparr>,
      concurrentWriteLimit = 24,
      getCount = 0, hasCount = 0, putCount = 0, putBytes = 0,
      dumpStats = stats'\<rparr>"

definition example_view :: "bool \<Rightarrow> LevelDBStore" where
  "example_view stats' = newLevelDBStore (example_store stats') ''ns'' True"

text \<open>
  Small collaborators for the table writer: a row is a key and a text, its key is its
  first part, a schema is the number of its primary-key columns, rows are equal when
  they are the same, and no call fails. The example writer is one that
  \<open>NewUpdatingWriter\<close> makes over a table holding the one row \<open>(1, ''one'')\<close>,
  with the two cadence counters as given.
\<close>

definition example_collab :: "(nat \<times> string, nat, string, nat) collab" where
  "example_collab =
     \<lparr>GetPKColsSize = (\<lambda>sch. int sch),
      NomsMapKey = (\<lambda>sch r. Inr (fst r)),
      MaybeGet_err = (\<lambda>k. None),
      FromNoms = (\<lambda>sch k v. Inr (k, v)),
      AreEqual = (\<lambda>a b sch. a = b),
      fails = (\<lambda>w c. None)\<rparr>"

definition example_writer :: "int64 \<Rightarrow> int64 \<Rightarrow> (nat, string, nat) tableEditorWriteCloser" where
  "example_writer so go =
     \<lparr>initialData = [1 \<mapsto> ''one''], tableSch = 1, insertOnly = False, statsCB = True,
      stats = \<lparr>Additions = 0, Modifications = 0, SameVal = 0\<rparr>,
      statOps = so, gcOps = go\<rparr>"

section \<open>Properties of the chunk store\<close>

subsection \<open>What a call leaves untouched\<close>

lemma example_store_eq: "newBackingStore Map.empty ''dir'' 24 b = Inr (example_store b)"
  by (simp add: newBackingStore_def example_store_def)

lemma apply_batch_unwritten: "key \<notin> fst ` set b \<Longrightarrow> apply_batch b m key = m key"
  by (induction b m rule: apply_batch.induct) auto

lemma db_Write_frame:
  "db_Write d b sync = (None, d') \<Longrightarrow> key \<notin> fst ` set b \<Longrightarrow>
     kv d' key = kv d key \<and> closed d' = closed d"
  by (auto simp: db_Write_def apply_batch_unwritten split: if_splits)

lemma step_frame:
  "step P l x = Inr l' \<Longrightarrow> key \<notin> set (written x) \<Longrightarrow>
     kv (db l') key = kv (db l) key \<and> closed (db l') = closed (db l)"
  by (cases x)
     (auto simp: updateRootByKey_def getByKey_def hasByKey_def putByKey_def putBatch_def
         db_Put_def Let_def apply_batch_unwritten db_Write_def
       split: sum.splits if_splits prod.splits option.splits)

lemma run_frame:
  "run P l xs = Inr l' \<Longrightarrow> key \<notin> set (concat (map written xs)) \<Longrightarrow>
     kv (db l') key = kv (db l) key \<and> closed (db l') = closed (db l)"
proof (induction xs arbitrary: l)
  case Nil
  then show ?case by simp
next
  case (Cons x xs)
  then obtain l1 where s: "step P l x = Inr l1" and r: "run P l1 xs = Inr l'"
    by (auto split: sum.splits)
  from Cons.prems have k: "key \<notin> set (written x)" "key \<notin> set (concat (map written xs))"
    by auto
  from step_frame [OF s k(1)] Cons.IH [OF r k(2)] show ?case by simp
qed

lemma hasByKey_absent:
  "\<not> closed (db l) \<Longrightarrow> kv (db l) key = None \<Longrightarrow>
     hasByKey l key = Inr (False, l\<lparr>hasCount := hasCount l + 1\<rparr>)"
  by (simp add: hasByKey_def db_Has_def)

lemma getByKey_absent:
  "\<not> closed (db l) \<Longrightarrow> kv (db l) key = None \<Longrightarrow>
     getByKey P l key ref = Inr (EmptyChunk P, l\<lparr>getCount := getCount l + 1\<rparr>)"
  by (simp add: getByKey_def db_Get_def)

lemma getByKey_present:
  "\<not> closed (db l) \<Longrightarrow> kv (db l) key = Some compressed \<Longrightarrow> snappy_Decode P compressed = Some data \<Longrightarrow>
     getByKey P l key ref = Inr (NewChunkWithHash ref data, l\<lparr>getCount := getCount l + 1\<rparr>)"
  by (simp add: getByKey_def db_Get_def)

text \<open>
  On an open handle, with a write slot to take, \<open>putByKey\<close> returns.
\<close>

lemma putByKey_returns:
  "\<not> closed (db l) \<Longrightarrow> concurrentWriteLimit l \<noteq> 0 \<Longrightarrow> \<exists>l'. putByKey P l key c = Inr l'"
  by (simp add: putByKey_def db_Put_def db_Write_def Let_def)

lemma putByKey_stores:
  "putByKey P l key c = Inr l' \<Longrightarrow>
     \<not> closed (db l') \<and> kv (db l') key = Some (snappy_Encode P (Data c))"
  by (auto simp: putByKey_def db_Put_def db_Write_def Let_def split: if_splits)

lemmas store_defs =
  example_pkgs_def example_store_def putByKey_def hasByKey_def getByKey_def
  updateRootByKey_def rootByKey_def putBatch_def db_Put_def db_Write_def db_Has_def
  db_Get_def Let_def

lemmas view_defs =
  example_view_def newLevelDBStore_def copyNsAndAppend_def rootKeyConst_def
  chunkPrefixConst_def toChunkKey_def Put_def Get_def Has_def Root_def UpdateRoot_def
  PutMany_def NewChunkWithHash_def

lemma example_view_eq: "NewLevelDBStore Map.empty ''dir'' ''ns'' 24 b = Inr (example_view b)"
  by (simp add: NewLevelDBStore_def newBackingStore_def example_view_def example_store_def)

subsection \<open>Round trip of a chunk\<close>

text \<open>
  C5. A chunk written with \<open>putByKey\<close> under a key is what \<open>getByKey\<close> returns for
  that key afterwards, byte for byte: after the put and any session of further calls
  that does not write the key again, the get returns a chunk whose content is the
  content that was put (and whose hash is the one the reader passed). The codec is a
  parameter, so that it decodes what it encoded for this content is a hypothesis.
\<close>

theorem C5_put_then_get_round_trip:
  assumes "putByKey P l key c = Inr l1"
    and "run P l1 ops = Inr l2" and "key \<notin> set (concat (map written ops))"
    and "snappy_Decode P (snappy_Encode P (Data c)) = Some (Data c)"
  shows "getByKey P l2 key ref =
           Inr (NewChunkWithHash ref (Data c), l2\<lparr>getCount := getCount l2 + 1\<rparr>)"
proof -
  from putByKey_stores [OF assms(1)] run_frame [OF assms(2,3)]
  have "\<not> closed (db l2)" and "kv (db l2) key = Some (snappy_Encode P (Data c))"
    by simp_all
  then show ?thesis using assms(4) by (rule getByKey_present)
qed

theorem C5_put_then_get_round_trip_witness:
  "\<exists>l1 l2.
     putByKey example_pkgs (example_store False) ''k1'' \<lparr>Hash = ''a'', Data = ''abc''\<rparr> = Inr l1 \<and>
     run example_pkgs l1 [OpHas ''k1'', OpPut ''k2'' \<lparr>Hash = ''b'', Data = ''xyz''\<rparr>] = Inr l2 \<and>
     getByKey example_pkgs l2 ''k1'' ''a''
       = Inr (\<lparr>Hash = ''a'', Data = ''abc''\<rparr>, l2\<lparr>getCount := getCount l2 + 1\<rparr>)"
proof -
  obtain l1 where p:
    "putByKey example_pkgs (example_store False) ''k1'' \<lparr>Hash = ''a'', Data = ''abc''\<rparr> = Inr l1"
    by (simp add: store_defs)
  have c: "\<not> closed (db l1)" "concurrentWriteLimit l1 = 24"
    using p by (auto simp: store_defs)
  obtain l2 where r:
    "run example_pkgs l1 [OpHas ''k1'', OpPut ''k2'' \<lparr>Hash = ''b'', Data = ''xyz''\<rparr>] = Inr l2"
    using c by (simp add: hasByKey_def db_Has_def putByKey_def db_Put_def db_Write_def Let_def)
  have k: "''k1'' \<notin> set (concat (map written
             [OpHas ''k1'', OpPut ''k2'' \<lparr>Hash = ''b'', Data = ''xyz''\<rparr> :: bytes op]))"
    by simp
  have d: "snappy_Decode example_pkgs (snappy_Encode example_pkgs (Data \<lparr>Hash = ''a'', Data = ''abc''\<rparr>))
             = Some (Data \<lparr>Hash = ''a'', Data = ''abc''\<rparr>)"
    by (simp add: example_pkgs_def)
  from C5_put_then_get_round_trip [OF p r k d, of "''a''"] p r
  show ?thesis by (auto simp: NewChunkWithHash_def)
qed

subsection \<open>Keys never written\<close>

text \<open>
  C6. For a key that was never written, \<open>hasByKey\<close> returns false and
  \<open>getByKey\<close> returns \<open>EmptyChunk\<close>, and both return normally: the key has no
  value when the session starts, the session runs to its end and none of its calls
  writes the key; then both calls return, with these results, and change nothing but
  their counter.
\<close>

theorem C6_never_written_has_false_get_empty:
  assumes "\<not> closed (db l0)" and "kv (db l0) key = None"
    and "run P l0 ops = Inr l" and "key \<notin> set (concat (map written ops))"
  shows "hasByKey l key = Inr (False, l\<lparr>hasCount := hasCount l + 1\<rparr>) \<and>
         getByKey P l key ref = Inr (EmptyChunk P, l\<lparr>getCount := getCount l + 1\<rparr>)"
proof -
  from run_frame [OF assms(3,4)] assms(1,2)
  have "\<not> closed (db l)" and "kv (db l) key = None" by simp_all
  then show ?thesis by (simp add: hasByKey_absent getByKey_absent)
qed

theorem C6_never_written_has_false_get_empty_witness:
  "\<exists>l. run example_pkgs (example_store False)
         [OpPut ''k1'' \<lparr>Hash = ''a'', Data = ''abc''\<rparr>, OpUpdateRoot ''/root'' ''a'' [], OpHas ''k1'']
         = Inr l \<and>
       hasByKey l ''k2'' = Inr (False, l\<lparr>hasCount := hasCount l + 1\<rparr>) \<and>
       getByKey example_pkgs l ''k2'' ''b''
         = Inr (\<lparr>Hash = ''empty'', Data = []\<rparr>, l\<lparr>getCount := getCount l + 1\<rparr>)"
proof -
  obtain l where r: "run example_pkgs (example_store False)
         [OpPut ''k1'' \<lparr>Hash = ''a'', Data = ''abc''\<rparr>, OpUpdateRoot ''/root'' ''a'' [], OpHas ''k1'']
         = Inr l"
    by (simp add: store_defs)
  have h1: "\<not> closed (db (example_store False))" by (simp add: example_store_def)
  have h2: "kv (db (example_store False)) ''k2'' = None" by (simp add: example_store_def)
  have h4: "''k2'' \<notin> set (concat (map written
     [OpPut ''k1'' \<lparr>Hash = ''a'', Data = ''abc''\<rparr>, OpUpdateRoot ''/root'' ''a'' [], OpHas ''k1'' :: bytes op]))"
    by simp
  have e: "EmptyChunk example_pkgs = \<lparr>Hash = ''empty'', Data = []\<rparr>"
    by (simp add: example_pkgs_def)
  from C6_never_written_has_false_get_empty [OF h1 h2 r h4, of "''b''"] r e
  show ?thesis by auto
qed

subsection \<open>The root of a namespace\<close>

lemma Root_absent:
  "internalLevelDBStore l = Some s \<Longrightarrow> \<not> closed (db s) \<Longrightarrow> kv (db s) (rootKey l) = None \<Longrightarrow>
     Root P l = Inr (hash_zero P)"
  by (simp add: Root_def rootByKey_def db_Get_def)

lemma NewLevelDBStore_fresh:
  "NewLevelDBStore disk dir ns n b = Inr l \<Longrightarrow>
     \<exists>s. internalLevelDBStore l = Some s \<and> \<not> closed (db s) \<and> kv (db s) = disk \<and>
         rootKey l = ns @ ''/root'' \<and> chunkPrefix l = ns @ ''/chunk/''"
  by (auto simp: NewLevelDBStore_def newBackingStore_def newLevelDBStore_def copyNsAndAppend_def
        rootKeyConst_def chunkPrefixConst_def split: if_splits)

text \<open>
  C7. Where the root key of a namespace has no value, \<open>Root\<close> returns the zero hash
  as a normal result, on every store that is open; and a store newly opened on an
  empty directory is such a store, whatever its namespace.
\<close>

theorem C7_absent_root_is_zero_hash:
  "(internalLevelDBStore l = Some s \<and> \<not> closed (db s) \<and> kv (db s) (rootKey l) = None
      \<longrightarrow> Root P l = Inr (hash_zero P)) \<and>
   (NewLevelDBStore Map.empty dir ns maxFileHandles stats' = Inr l'
      \<longrightarrow> Root P l' = Inr (hash_zero P))"
proof (intro conjI impI)
  assume "internalLevelDBStore l = Some s \<and> \<not> closed (db s) \<and> kv (db s) (rootKey l) = None"
  then show "Root P l = Inr (hash_zero P)" by (simp add: Root_absent)
next
  assume "NewLevelDBStore Map.empty dir ns maxFileHandles stats' = Inr l'"
  from NewLevelDBStore_fresh [OF this]
  obtain s where "internalLevelDBStore l' = Some s" "\<not> closed (db s)" "kv (db s) = Map.empty"
    by blast
  then show "Root P l' = Inr (hash_zero P)" by (simp add: Root_absent)
qed

theorem C7_absent_root_is_zero_hash_witness:
  "NewLevelDBStore Map.empty ''dir'' ''ns'' 24 False = Inr (example_view False) \<and>
   internalLevelDBStore (example_view False) = Some (example_store False) \<and>
   kv (db (example_store False)) (rootKey (example_view False)) = None \<and>
   Root example_pkgs (example_view False) = Inr []"
proof -
  have z: "hash_zero example_pkgs = []" by (simp add: example_pkgs_def)
  have v: "internalLevelDBStore (example_view False) = Some (example_store False)"
    by (simp add: example_view_def newLevelDBStore_def)
  have k: "kv (db (example_store False)) (rootKey (example_view False)) = None"
    and c: "\<not> closed (db (example_store False))"
    by (simp_all add: example_store_def)
  from C7_absent_root_is_zero_hash
         [of "example_view False" "example_store False" example_pkgs
             "''dir''" "''ns''" 24 False "example_view False"]
    example_view_eq [of False] z v k c
  show ?thesis by simp
qed

lemma UpdateRoot_True_iff:
  "(\<exists>l'. UpdateRoot P l current last' = Inr (True, l')) \<longleftrightarrow> Root P l = Inr last'"
  by (auto simp: UpdateRoot_def Root_def updateRootByKey_def rootByKey_def db_Get_def db_Put_def
        db_Write_def split: option.splits sum.splits if_splits prod.splits)

lemma UpdateRoot_False_iff:
  "(\<exists>l'. UpdateRoot P l current last' = Inr (False, l')) \<longleftrightarrow>
     (\<exists>h. Root P l = Inr h \<and> h \<noteq> last')"
  by (auto simp: UpdateRoot_def Root_def updateRootByKey_def rootByKey_def db_Get_def db_Put_def
        db_Write_def split: option.splits sum.splits if_splits prod.splits)

lemma UpdateRoot_False_same:
  "UpdateRoot P l current last' = Inr (False, l') \<Longrightarrow> l' = l"
  by (auto simp: UpdateRoot_def updateRootByKey_def db_Put_def
        db_Write_def split: option.splits sum.splits if_splits prod.splits)

text \<open>A successful update is one synchronous write of the new root under the root key.\<close>

lemma UpdateRoot_True_writes:
  "UpdateRoot P l current last' = Inr (True, l') \<Longrightarrow>
     \<exists>s s'. internalLevelDBStore l = Some s \<and> internalLevelDBStore l' = Some s' \<and>
        rootKey l' = rootKey l \<and> \<not> closed (db s') \<and>
        kv (db s') = (kv (db s))(rootKey l \<mapsto> hash_String P current) \<and>
        journal (db s') = journal (db s) @ [([(rootKey l, hash_String P current)], True)]"
  by (auto simp: UpdateRoot_def updateRootByKey_def db_Put_def
        db_Write_def split: option.splits sum.splits if_splits prod.splits)

lemma UpdateRoot_True_Root:
  assumes "UpdateRoot P l current last' = Inr (True, l')"
    and "hash_Parse P (hash_String P current) = Some current"
  shows "Root P l' = Inr current"
  using assms
  by (auto simp: UpdateRoot_def Root_def updateRootByKey_def rootByKey_def db_Get_def db_Put_def
        db_Write_def split: option.splits sum.splits if_splits prod.splits)

text \<open>
  C1. In every state of the store, \<open>UpdateRoot current last\<close> returns true exactly
  when \<open>Root\<close> returns \<open>last\<close> in that state, and returns false exactly when
  \<open>Root\<close> returns some other hash. After it returned true, \<open>Root\<close> returns
  \<open>current\<close> (the hash package is a parameter: that it parses the text of
  \<open>current\<close> back to \<open>current\<close> is a hypothesis). After it returned false the
  store is the one before the call, the journal of writes included, and \<open>Root\<close>
  returns what it returned before.
\<close>

theorem C1_UpdateRoot_compare_and_swap:
  "((\<exists>l'. UpdateRoot P l current last' = Inr (True, l')) \<longleftrightarrow> Root P l = Inr last') \<and>
   ((\<exists>l'. UpdateRoot P l current last' = Inr (False, l')) \<longleftrightarrow>
      (\<exists>h. Root P l = Inr h \<and> h \<noteq> last')) \<and>
   (UpdateRoot P l current last' = Inr (True, l1) \<and>
      hash_Parse P (hash_String P current) = Some current
      \<longrightarrow> Root P l1 = Inr current) \<and>
   (UpdateRoot P l current last' = Inr (False, l2) \<longrightarrow> l2 = l \<and> Root P l2 = Root P l)"
  using UpdateRoot_True_iff [of P l current last'] UpdateRoot_False_iff [of P l current last']
    UpdateRoot_True_Root [of P l current last' l1] UpdateRoot_False_same [of P l current last' l2]
  by blast

theorem C1_UpdateRoot_compare_and_swap_witness:
  "\<exists>l1 l2. Root example_pkgs (example_view False) = Inr [] \<and>
     UpdateRoot example_pkgs (example_view False) ''H1'' [] = Inr (True, l1) \<and>
     Root example_pkgs l1 = Inr ''H1'' \<and>
     UpdateRoot example_pkgs l1 ''H2'' [] = Inr (False, l2) \<and> l2 = l1 \<and>
     Root example_pkgs l2 = Inr ''H1''"
proof -
  have r0: "Root example_pkgs (example_view False) = Inr []"
    by (simp add: view_defs store_defs)
  from C1_UpdateRoot_compare_and_swap
         [of example_pkgs "example_view False" "''H1''" "[]" "example_view False" "example_view False"] r0
  obtain l1 where u1: "UpdateRoot example_pkgs (example_view False) ''H1'' [] = Inr (True, l1)"
    by blast
  have p: "hash_Parse example_pkgs (hash_String example_pkgs ''H1'') = Some ''H1''"
    by (simp add: example_pkgs_def)
  from C1_UpdateRoot_compare_and_swap [of example_pkgs "example_view False" "''H1''" "[]" l1] u1 p
  have r1: "Root example_pkgs l1 = Inr ''H1''" by blast
  from C1_UpdateRoot_compare_and_swap [of example_pkgs l1 "''H2''" "[]" l1 l1] r1
  obtain l2 where u2: "UpdateRoot example_pkgs l1 ''H2'' [] = Inr (False, l2)"
    by auto
  from C1_UpdateRoot_compare_and_swap [of example_pkgs l1 "''H2''" "[]" l1 l2] u2 r1
  have "l2 = l1" "Root example_pkgs l2 = Inr ''H1''" by auto
  with r0 u1 r1 u2 show ?thesis by blast
qed

subsection \<open>What is read is what was stored\<close>

lemma Get_present:
  assumes "internalLevelDBStore l = Some s" and "\<not> closed (db s)"
    and "kv (db s) (toChunkKey P l ref) = Some compressed"
    and "snappy_Decode P compressed = Some data"
  shows "Get P l ref = Inr (\<lparr>Hash = ref, Data = data\<rparr>,
           l\<lparr>internalLevelDBStore := Some (s\<lparr>getCount := getCount s + 1\<rparr>)\<rparr>)"
  using assms by (simp add: Get_def getByKey_present NewChunkWithHash_def)

lemma Put_stores:
  "Put P l c = Inr l' \<Longrightarrow>
     \<exists>s'. internalLevelDBStore l' = Some s' \<and> \<not> closed (db s') \<and>
          kv (db s') (toChunkKey P l' (Hash c)) = Some (snappy_Encode P (Data c))"
  by (auto simp: Put_def toChunkKey_def split: option.splits sum.splits dest: putByKey_stores)

text \<open>
  C10. Whatever hash \<open>ref\<close> the caller passes and whatever value is stored under the
  chunk key of \<open>ref\<close>, \<open>Get ref\<close> returns the chunk made of \<open>ref\<close> itself and
  the decoded stored bytes; and \<open>Put\<close> stores the encoded content of a chunk under
  the key of the hash the chunk carries, whatever that hash is. Neither definition
  computes a digest of the bytes: the only use either makes of a hash is
  \<open>hash_DigestSlice\<close>, to build the key.
\<close>

theorem C10_Get_returns_ref_and_stored_bytes:
  "(internalLevelDBStore l = Some s \<and> \<not> closed (db s) \<and>
      kv (db s) (toChunkKey P l ref) = Some compressed \<and> snappy_Decode P compressed = Some data
    \<longrightarrow> Get P l ref = Inr (\<lparr>Hash = ref, Data = data\<rparr>,
           l\<lparr>internalLevelDBStore := Some (s\<lparr>getCount := getCount s + 1\<rparr>)\<rparr>)) \<and>
   (Put P l c = Inr l'
    \<longrightarrow> (\<exists>s'. internalLevelDBStore l' = Some s' \<and> \<not> closed (db s') \<and>
           kv (db s') (toChunkKey P l' (Hash c)) = Some (snappy_Encode P (Data c))))"
  using Get_present [of l s P ref compressed data] Put_stores [of P l c l']
  by blast

theorem C10_Get_returns_ref_and_stored_bytes_witness:
  "\<exists>l1 l1' l2 l2'.
     Put example_pkgs (example_view False) \<lparr>Hash = ''a'', Data = ''abc''\<rparr> = Inr l1 \<and>
     Get example_pkgs l1 ''a'' = Inr (\<lparr>Hash = ''a'', Data = ''abc''\<rparr>, l1') \<and>
     Put example_pkgs (example_view False) \<lparr>Hash = ''a'', Data = ''zzz''\<rparr> = Inr l2 \<and>
     Get example_pkgs l2 ''a'' = Inr (\<lparr>Hash = ''a'', Data = ''zzz''\<rparr>, l2')"
proof -
  have d: "\<And>x. snappy_Decode example_pkgs (snappy_Encode example_pkgs x) = Some x"
    by (simp add: example_pkgs_def)
  have g: "\<exists>l1'. Get example_pkgs l1 ''a'' = Inr (\<lparr>Hash = ''a'', Data = x\<rparr>, l1')"
    if p: "Put example_pkgs (example_view False) \<lparr>Hash = ''a'', Data = x\<rparr> = Inr l1" for x l1
  proof -
    from C10_Get_returns_ref_and_stored_bytes
           [of "example_view False" "example_store False" example_pkgs "''a''" "''s''" "[]"
               "\<lparr>Hash = ''a'', Data = x\<rparr>" l1] p
    obtain s1 where s1: "internalLevelDBStore l1 = Some s1" "\<not> closed (db s1)"
      "kv (db s1) (toChunkKey example_pkgs l1 ''a'') = Some (snappy_Encode example_pkgs x)"
      by auto
    from C10_Get_returns_ref_and_stored_bytes
           [of l1 s1 example_pkgs "''a''" "snappy_Encode example_pkgs x" x
               "\<lparr>Hash = ''a'', Data = x\<rparr>" l1] s1 d
    show ?thesis by blast
  qed
  obtain l1 where p1:
    "Put example_pkgs (example_view False) \<lparr>Hash = ''a'', Data = ''abc''\<rparr> = Inr l1"
    by (simp add: view_defs store_defs)
  obtain l2 where p2:
    "Put example_pkgs (example_view False) \<lparr>Hash = ''a'', Data = ''zzz''\<rparr> = Inr l2"
    by (simp add: view_defs store_defs)
  from g [OF p1] g [OF p2] p1 p2 show ?thesis by blast
qed

subsection \<open>Use after Close, and Close itself\<close>

lemma Close_leaves_nil:
  "LevelDBStore_Close l = Inr (out, l') \<Longrightarrow> internalLevelDBStore l' = None"
  by (auto simp: LevelDBStore_Close_def split: if_splits option.splits sum.splits)

text \<open>
  C3. After a \<open>Close\<close> that returned, \<open>Root\<close>, \<open>UpdateRoot\<close>, \<open>Get\<close>,
  \<open>Has\<close> and \<open>Put\<close> end in the assertion \<open>d.Chk.True\<close> with the message
  "Cannot use LevelDBStore after Close()."; \<open>PutMany\<close> has no such assertion and
  ends in the run-time's nil pointer dereference, whatever chunks it is given. None of
  the six returns, and none hangs.
\<close>

theorem C3_calls_after_Close:
  "LevelDBStore_Close l = Inr (out, l') \<Longrightarrow>
     Root P l' = Inl (Panic (ChkTrue afterClose)) \<and>
     UpdateRoot P l' current last' = Inl (Panic (ChkTrue afterClose)) \<and>
     Get P l' ref = Inl (Panic (ChkTrue afterClose)) \<and>
     Has P l' ref = Inl (Panic (ChkTrue afterClose)) \<and>
     Put P l' c = Inl (Panic (ChkTrue afterClose)) \<and>
     PutMany P l' chunks = Inl (Panic NilPointerDereference)"
  by (drule Close_leaves_nil)
     (simp add: Root_def UpdateRoot_def Get_def Has_def Put_def PutMany_def split: prod.splits)

theorem C3_calls_after_Close_witness:
  "\<exists>out l'. LevelDBStore_Close (example_view False) = Inr (out, l') \<and>
     Root example_pkgs l' = Inl (Panic (ChkTrue ''Cannot use LevelDBStore after Close().'')) \<and>
     Put example_pkgs l' \<lparr>Hash = ''a'', Data = ''abc''\<rparr>
       = Inl (Panic (ChkTrue ''Cannot use LevelDBStore after Close().'')) \<and>
     PutMany example_pkgs l' [] = Inl (Panic NilPointerDereference) \<and>
     PutMany example_pkgs l' [\<lparr>Hash = ''a'', Data = ''abc''\<rparr>] = Inl (Panic NilPointerDereference)"
proof -
  obtain out l' where c: "LevelDBStore_Close (example_view False) = Inr (out, l')"
    by (simp add: LevelDBStore_Close_def internalLevelDBStore_Close_def example_view_def
          newLevelDBStore_def example_store_def)
  from C3_calls_after_Close [OF c, of example_pkgs] c show ?thesis
    by (auto simp: afterClose_def)
qed

text \<open>
  C4. \<open>Close\<close> of a physical store that collects stats and has served no put does
  not complete: the average put size is computed as \<open>putBytes / putCount\<close> with no
  test of \<open>putCount\<close>, and the division by zero is a run-time panic.
\<close>

theorem C4_Close_divides_by_zero:
  "dumpStats l \<Longrightarrow> putCount l = 0 \<Longrightarrow>
     internalLevelDBStore_Close l = Inl (Panic IntegerDivideByZero)"
  by (simp add: internalLevelDBStore_Close_def int64_div_def)

theorem C4_Close_divides_by_zero_witness:
  "newBackingStore Map.empty ''dir'' 24 True = Inr (example_store True) \<and>
   internalLevelDBStore_Close (example_store True) = Inl (Panic IntegerDivideByZero) \<and>
   NewLevelDBStore Map.empty ''dir'' ''ns'' 24 True = Inr (example_view True) \<and>
   LevelDBStore_Close (example_view True) = Inl (Panic IntegerDivideByZero)"
proof -
  have d: "dumpStats (example_store True)" and p: "putCount (example_store True) = 0"
    by (simp_all add: example_store_def)
  from C4_Close_divides_by_zero [OF d p] example_store_eq [of True] example_view_eq [of True]
  show ?thesis by (simp add: LevelDBStore_Close_def example_view_def newLevelDBStore_def)
qed

text \<open>Everywhere else \<open>Close\<close> returns, and leaves the engine handle closed.\<close>

lemma Close_returns:
  "\<not> dumpStats l \<or> putCount l \<noteq> 0 \<Longrightarrow>
     \<exists>out. internalLevelDBStore_Close l = Inr (out, l\<lparr>db := db_Close (db l)\<rparr>)"
  by (auto simp: internalLevelDBStore_Close_def int64_div_def Let_def)

section \<open>Properties of the table writer\<close>

lemmas writer_defs =
  WriteRow_def WriteRow_cadence_def gc_def call_def MaybeGet_def example_collab_def
  example_writer_def tableWriterStatUpdateRate_def tableWriterGCRate_def Let_def

subsection \<open>The shape of one WriteRow\<close>

lemma rates: "tableWriterStatUpdateRate = 2 ^ 16" "tableWriterGCRate = 2 ^ 17"
  by (simp_all add: tableWriterStatUpdateRate_def tableWriterGCRate_def)

text \<open>\<open>gc\<close> starts with the flush; what follows are its other two calls.\<close>

lemma gc_trail:
  "gc E w = (e, w2) \<Longrightarrow> \<exists>g. w2 = w @ Flush # g \<and> set g \<subseteq> {WriteRootValue, GC}"
  by (auto simp: gc_def call_def split: option.splits)

lemma cadence_shape:
  assumes "WriteRow_cadence E te w = (e, te2, w2)"
  shows "\<exists>g. w2 = w @ (if statsCB te \<and> 2 ^ 16 \<le> sint (statOps te) then [StatsCB (stats te)] else [])
                  @ (if 2 ^ 17 \<le> sint (gcOps te) then Flush # g else []) \<and>
             set g \<subseteq> {WriteRootValue, GC} \<and>
             (\<not> 2 ^ 17 \<le> sint (gcOps te) \<longrightarrow> e = None) \<and>
             te2 = te\<lparr>statOps := (if statsCB te \<and> 2 ^ 16 \<le> sint (statOps te) then 0 else statOps te),
                      gcOps := (if 2 ^ 17 \<le> sint (gcOps te) then 0 else gcOps te)\<rparr>"
  using assms
  by (auto simp: WriteRow_cadence_def rates split: if_splits prod.splits dest!: gc_trail
        intro: exI [of _ "[]"])

lemma cadence_keeps:
  "WriteRow_cadence E te w = (e, te2, w2) \<Longrightarrow>
     initialData te2 = initialData te \<and> insertOnly te2 = insertOnly te \<and>
     tableSch te2 = tableSch te \<and> stats te2 = stats te"
  by (drule cadence_shape) auto

lemma body_shape:
  assumes "WriteRow E te r w = (res, te', w')" and "WriteRow_cadence E te w = (e, te2, w2)"
  shows "(\<exists>b. w' = w2 @ b \<and> (b = [] \<or> b = [InsertRow r] \<or> (\<exists>old. b = [UpdateRow old r]))) \<and>
         (e \<noteq> None \<longrightarrow> res = e \<and> te' = te2 \<and> w' = w2) \<and>
         (e = None \<longrightarrow> gcOps te' = gcOps te2 + 1) \<and>
         (statOps te' = statOps te2 \<or> statOps te' = statOps te2 + 1) \<and>
         initialData te' = initialData te2 \<and> insertOnly te' = insertOnly te2 \<and>
         tableSch te' = tableSch te2 \<and> statsCB te' = statsCB te2"
  using assms
  by (auto simp: WriteRow_def call_def Let_def split: option.splits sum.splits if_splits prod.splits)

text \<open>
  No \<open>WriteRow\<close> changes the initial map, the mode or the schema of the writer: they
  are what the constructor set.
\<close>

lemma WriteRow_keeps:
  assumes "WriteRow E te r w = (res, te', w')"
  shows "initialData te' = initialData te \<and> insertOnly te' = insertOnly te \<and>
         tableSch te' = tableSch te \<and> statsCB te' = statsCB te"
proof -
  obtain e te2 w2 where c: "WriteRow_cadence E te w = (e, te2, w2)"
    by (cases "WriteRow_cadence E te w") auto
  from cadence_shape [OF c] body_shape [OF assms c] show ?thesis by auto
qed

text \<open>
  The writer \<open>NewUpdatingWriter\<close> returns is in upsert mode, and its initial map is
  the row data the table has in the root it was given.
\<close>

lemma NewUpdatingWriter_snapshot:
  "NewUpdatingWriter E dl root cb w = (Inr te, w') \<Longrightarrow>
     \<not> insertOnly te \<and> root (Name dl) = Some (tableSch te, initialData te)"
  by (auto simp: NewUpdatingWriter_def call_def split: option.splits)

subsection \<open>Upsert\<close>

text \<open>
  C2. A writer in upsert mode, once the cadence checks of \<open>WriteRow\<close> are passed and
  the key of the row is encoded and its lookup does not fail, decides on the initial
  map of the writer alone, which the call leaves as it is. Key absent: the one edit is
  the insert of the row and additions go up by one. Key present, the stored row equal
  to the incoming one: no edit, the call returns no error, and the same-value count
  goes up by one. Key present, rows different: the one edit is the update from the
  stored row to the incoming one and modifications go up by one. The trail of edits
  made so far (\<open>w\<close>) has no part in the decision.
\<close>

theorem C2_WriteRow_upsert:
  assumes "\<not> insertOnly te"
    and "WriteRow_cadence E te w = (None, te2, w2)"
    and "NomsMapKey E (tableSch te) r = Inr k"
    and "MaybeGet_err E k = None"
    and "WriteRow E te r w = (res, te', w')"
  shows "initialData te' = initialData te \<and>
    (case initialData te k of
       None \<Rightarrow>
         w' = w2 @ [InsertRow r] \<and> res = fails E w2 (InsertRow r) \<and>
         stats te' = (stats te)\<lparr>Additions := Additions (stats te) + 1\<rparr>
     | Some v \<Rightarrow>
         (case FromNoms E (tableSch te) k v of
            Inl e \<Rightarrow> w' = w2 \<and> res = Some e \<and> stats te' = stats te
          | Inr oldRow \<Rightarrow>
              if AreEqual E r oldRow (tableSch te)
              then w' = w2 \<and> res = None \<and>
                   stats te' = (stats te)\<lparr>SameVal := SameVal (stats te) + 1\<rparr>
              else w' = w2 @ [UpdateRow oldRow r] \<and> res = fails E w2 (UpdateRow oldRow r) \<and>
                   stats te' = (stats te)\<lparr>Modifications := Modifications (stats te) + 1\<rparr>))"
proof -
  from cadence_keeps [OF assms(2)] have k:
    "initialData te2 = initialData te" "insertOnly te2 = insertOnly te"
    "tableSch te2 = tableSch te" "stats te2 = stats te"
    by simp_all
  from assms(5) show ?thesis
    using assms(1,3,4) k
    by (auto simp: WriteRow_def assms(2) call_def MaybeGet_def Let_def
          split: option.splits sum.splits if_splits)
qed

theorem C2_WriteRow_upsert_witness:
  "(\<exists>te1 te2.
      WriteRow example_collab (example_writer 0 0) (2, ''two'') []
        = (None, te1, [InsertRow (2, ''two'')]) \<and>
      stats te1 = \<lparr>Additions = 1, Modifications = 0, SameVal = 0\<rparr> \<and>
      WriteRow example_collab te1 (2, ''two'') [InsertRow (2, ''two'')]
        = (None, te2, [InsertRow (2, ''two''), InsertRow (2, ''two'')]) \<and>
      stats te2 = \<lparr>Additions = 2, Modifications = 0, SameVal = 0\<rparr>) \<and>
   (\<exists>te1.
      WriteRow example_collab (example_writer 0 0) (1, ''one'') [] = (None, te1, []) \<and>
      stats te1 = \<lparr>Additions = 0, Modifications = 0, SameVal = 1\<rparr>) \<and>
   (\<exists>te1.
      WriteRow example_collab (example_writer 0 0) (1, ''uno'') []
        = (None, te1, [UpdateRow (1, ''one'') (1, ''uno'')]) \<and>
      stats te1 = \<lparr>Additions = 0, Modifications = 1, SameVal = 0\<rparr>)"
proof -
  let ?E = example_collab and ?te = "example_writer 0 0"
  have m: "\<not> insertOnly ?te" by (simp add: example_writer_def)
  have c: "WriteRow_cadence ?E ?te w = (None, ?te, w)" for w
    by (simp add: writer_defs)
  have k: "NomsMapKey ?E (tableSch ?te) r = Inr (fst r)" for r
    by (simp add: example_collab_def)
  have g: "MaybeGet_err ?E (fst r) = None" for r :: "nat \<times> string"
    by (simp add: example_collab_def)
  obtain res1 te1 w1 where a1: "WriteRow ?E ?te (2, ''two'') [] = (res1, te1, w1)"
    by (cases "WriteRow ?E ?te (2, ''two'') []") auto
  from C2_WriteRow_upsert [OF m c k g a1]
  have r1: "w1 = [InsertRow (2, ''two'')]" "res1 = None"
    "stats te1 = \<lparr>Additions = 1, Modifications = 0, SameVal = 0\<rparr>"
    "initialData te1 = [1 \<mapsto> ''one'']"
    by (simp_all add: example_writer_def example_collab_def)
  have m1: "\<not> insertOnly te1" and s1: "tableSch te1 = 1"
    using WriteRow_keeps [OF a1] by (simp_all add: example_writer_def)
  have c1: "WriteRow_cadence ?E te1 w1 = (None, te1, w1)"
    using a1 by (auto simp: writer_defs)
  obtain res2 te2 w2 where a2: "WriteRow ?E te1 (2, ''two'') w1 = (res2, te2, w2)"
    by (cases "WriteRow ?E te1 (2, ''two'') w1") auto
  have k1: "NomsMapKey ?E (tableSch te1) (2, ''two'') = Inr (fst (2::nat, ''two''))"
    by (simp add: example_collab_def)
  from C2_WriteRow_upsert [OF m1 c1 k1 g a2] r1
  have r2: "w2 = [InsertRow (2, ''two''), InsertRow (2, ''two'')]" "res2 = None"
    "stats te2 = \<lparr>Additions = 2, Modifications = 0, SameVal = 0\<rparr>"
    by (simp_all add: example_collab_def)
  obtain res3 te3 w3 where a3: "WriteRow ?E ?te (1, ''one'') [] = (res3, te3, w3)"
    by (cases "WriteRow ?E ?te (1, ''one'') []") auto
  from C2_WriteRow_upsert [OF m c k g a3]
  have r3: "w3 = []" "res3 = None"
    "stats te3 = \<lparr>Additions = 0, Modifications = 0, SameVal = 1\<rparr>"
    by (simp_all add: example_writer_def example_collab_def)
  obtain res4 te4 w4 where a4: "WriteRow ?E ?te (1, ''uno'') [] = (res4, te4, w4)"
    by (cases "WriteRow ?E ?te (1, ''uno'') []") auto
  from C2_WriteRow_upsert [OF m c k g a4]
  have r4: "w4 = [UpdateRow (1, ''one'') (1, ''uno'')]" "res4 = None"
    "stats te4 = \<lparr>Additions = 0, Modifications = 1, SameVal = 0\<rparr>"
    by (simp_all add: example_writer_def example_collab_def)
  from a1 r1 a2 r2 a3 r3 a4 r4 show ?thesis by auto
qed

subsection \<open>The two cadences\<close>

text \<open>
  The calls of \<open>gc\<close>, in full: the flush, the write of the root value it gave, the
  collection, in this order, ending at the first that fails.
\<close>

lemma gc_cases:
  "gc E w =
     (case fails E w Flush of
        Some e \<Rightarrow> (Some e, w @ [Flush])
      | None \<Rightarrow>
          (case fails E (w @ [Flush]) WriteRootValue of
             Some e \<Rightarrow> (Some e, w @ [Flush, WriteRootValue])
           | None \<Rightarrow> (fails E (w @ [Flush, WriteRootValue]) GC, w @ [Flush, WriteRootValue, GC])))"
  by (simp add: gc_def call_def split: option.splits)

lemma cadence_gc:
  assumes "WriteRow_cadence E te w = (e, te2, w2)" and "2 ^ 17 \<le> sint (gcOps te)"
  shows "gc E (w @ (if statsCB te \<and> 2 ^ 16 \<le> sint (statOps te) then [StatsCB (stats te)] else []))
           = (e, w2) \<and> gcOps te2 = 0"
  using assms by (auto simp: WriteRow_cadence_def rates split: if_splits prod.splits)

lemma cadence_no_gc:
  assumes "WriteRow_cadence E te w = (e, te2, w2)" and "\<not> 2 ^ 17 \<le> sint (gcOps te)"
  shows "w2 = w @ (if statsCB te \<and> 2 ^ 16 \<le> sint (statOps te) then [StatsCB (stats te)] else [])
         \<and> e = None \<and> gcOps te2 = gcOps te"
  using assms by (auto simp: WriteRow_cadence_def rates split: if_splits prod.splits)

lemma WriteRow_gc_trail:
  assumes "WriteRow E te r w = (res, te', w')"
    and "pre = (if statsCB te \<and> 2 ^ 16 \<le> sint (statOps te) then [StatsCB (stats te)] else [])"
    and "w' = w @ pre @ rest"
  shows "(2 ^ 17 \<le> sint (gcOps te) \<longrightarrow>
            (case fails E (w @ pre) Flush of
               Some e \<Rightarrow> rest = [Flush] \<and> res = Some e \<and> gcOps te' = 0
             | None \<Rightarrow>
                 (case fails E (w @ pre @ [Flush]) WriteRootValue of
                    Some e \<Rightarrow> rest = [Flush, WriteRootValue] \<and> res = Some e \<and> gcOps te' = 0
                  | None \<Rightarrow>
                      (case fails E (w @ pre @ [Flush, WriteRootValue]) GC of
                         Some e \<Rightarrow> rest = [Flush, WriteRootValue, GC] \<and> res = Some e \<and> gcOps te' = 0
                       | None \<Rightarrow>
                           gcOps te' = 1 \<and>
                           (\<exists>b. rest = Flush # WriteRootValue # GC # b \<and>
                                (b = [] \<or> b = [InsertRow r] \<or> (\<exists>old. b = [UpdateRow old r]))))))) \<and>
         (\<not> 2 ^ 17 \<le> sint (gcOps te) \<longrightarrow>
            rest = [] \<or> rest = [InsertRow r] \<or> (\<exists>old. rest = [UpdateRow old r]))"
proof -
  obtain e te2 w2 where c: "WriteRow_cadence E te w = (e, te2, w2)"
    by (cases "WriteRow_cadence E te w") auto
  from body_shape [OF assms(1) c] obtain b where b:
    "w' = w2 @ b" "b = [] \<or> b = [InsertRow r] \<or> (\<exists>old. b = [UpdateRow old r])"
    "e \<noteq> None \<longrightarrow> res = e \<and> te' = te2 \<and> w' = w2"
    "e = None \<longrightarrow> gcOps te' = gcOps te2 + 1"
    by blast
  show ?thesis
  proof (cases "2 ^ 17 \<le> sint (gcOps te)")
    case True
    from cadence_gc [OF c True] assms(2)
    have g: "gc E (w @ pre) = (e, w2)" and z: "gcOps te2 = 0" by simp_all
    from g b assms(3) z True show ?thesis
      by (auto simp: gc_cases split: option.splits)
  next
    case False
    from cadence_no_gc [OF c False] assms(2)
    have "w2 = w @ pre" by simp
    with b(1,2) assms(3) False show ?thesis by auto
  qed
qed

text \<open>
  C8. The two rates are \<open>2^16 = 65536\<close> and \<open>2^17 = 131072\<close>. Whatever
  \<open>WriteRow\<close> returns, the calls it made are: first the stats callback, with the
  stats as they were before the call, exactly when a callback is set and the stats
  counter has reached \<open>2^16\<close>; then the rest, which holds no callback. When the GC
  counter has reached \<open>2^17\<close> the rest starts with the whole GC routine (so the
  stats check comes before the GC check): the flush, the write of the root value and
  the collection, and only then the edit of the row, if there is one; where one of the
  three fails the rest ends with it, the call returns its error, and the GC counter,
  reset, stays at 0; where none fails the GC counter ends at 1. When the GC counter has
  not reached the rate the rest is the edit of the row alone, nothing of the GC routine
  has run, and the counter ends one higher: the check read the counter before the
  increment. A stats counter that fired is reset: it ends at 0 or 1.
\<close>

theorem C8_WriteRow_cadence_thresholds:
  assumes "WriteRow E te r w = (res, te', w')"
  shows "tableWriterStatUpdateRate = 2 ^ 16 \<and> tableWriterGCRate = 2 ^ 17 \<and>
    (\<exists>pre rest.
        pre = (if statsCB te \<and> 2 ^ 16 \<le> sint (statOps te) then [StatsCB (stats te)] else []) \<and>
        w' = w @ pre @ rest \<and>
        (\<forall>s. StatsCB s \<notin> set rest) \<and>
        (Flush \<in> set rest \<longleftrightarrow> 2 ^ 17 \<le> sint (gcOps te)) \<and>
        (2 ^ 17 \<le> sint (gcOps te) \<longrightarrow> (\<exists>g. rest = Flush # g)) \<and>
        (2 ^ 17 \<le> sint (gcOps te) \<longrightarrow>
            (case fails E (w @ pre) Flush of
               Some e \<Rightarrow> rest = [Flush] \<and> res = Some e \<and> gcOps te' = 0
             | None \<Rightarrow>
                 (case fails E (w @ pre @ [Flush]) WriteRootValue of
                    Some e \<Rightarrow> rest = [Flush, WriteRootValue] \<and> res = Some e \<and> gcOps te' = 0
                  | None \<Rightarrow>
                      (case fails E (w @ pre @ [Flush, WriteRootValue]) GC of
                         Some e \<Rightarrow> rest = [Flush, WriteRootValue, GC] \<and> res = Some e \<and> gcOps te' = 0
                       | None \<Rightarrow>
                           gcOps te' = 1 \<and>
                           (\<exists>b. rest = Flush # WriteRootValue # GC # b \<and>
                                (b = [] \<or> b = [InsertRow r] \<or> (\<exists>old. b = [UpdateRow old r]))))))) \<and>
        (\<not> 2 ^ 17 \<le> sint (gcOps te) \<longrightarrow>
            rest = [] \<or> rest = [InsertRow r] \<or> (\<exists>old. rest = [UpdateRow old r]))) \<and>
    (statsCB te \<and> 2 ^ 16 \<le> sint (statOps te) \<longrightarrow> statOps te' = 0 \<or> statOps te' = 1) \<and>
    (\<not> (statsCB te \<and> 2 ^ 16 \<le> sint (statOps te))
       \<longrightarrow> statOps te' = statOps te \<or> statOps te' = statOps te + 1) \<and>
    (2 ^ 17 \<le> sint (gcOps te) \<longrightarrow> gcOps te' = 1 \<or> (gcOps te' = 0 \<and> res \<noteq> None)) \<and>
    (\<not> 2 ^ 17 \<le> sint (gcOps te) \<longrightarrow> gcOps te' = gcOps te + 1)"
proof -
  let ?pre = "if statsCB te \<and> 2 ^ 16 \<le> sint (statOps te) then [StatsCB (stats te)] else []"
  obtain e te2 w2 where c: "WriteRow_cadence E te w = (e, te2, w2)"
    by (cases "WriteRow_cadence E te w") auto
  from cadence_shape [OF c] obtain g where g:
    "w2 = w @ ?pre @ (if 2 ^ 17 \<le> sint (gcOps te) then Flush # g else [])"
    "set g \<subseteq> {WriteRootValue, GC}"
    "\<not> 2 ^ 17 \<le> sint (gcOps te) \<longrightarrow> e = None"
    "te2 = te\<lparr>statOps := (if statsCB te \<and> 2 ^ 16 \<le> sint (statOps te) then 0 else statOps te),
             gcOps := (if 2 ^ 17 \<le> sint (gcOps te) then 0 else gcOps te)\<rparr>"
    by blast
  from body_shape [OF assms c] obtain b where b:
    "w' = w2 @ b" "b = [] \<or> b = [InsertRow r] \<or> (\<exists>old. b = [UpdateRow old r])"
    "e \<noteq> None \<longrightarrow> res = e \<and> te' = te2 \<and> w' = w2"
    "e = None \<longrightarrow> gcOps te' = gcOps te2 + 1"
    "statOps te' = statOps te2 \<or> statOps te' = statOps te2 + 1"
    by blast
  let ?rest = "(if 2 ^ 17 \<le> sint (gcOps te) then Flush # g else []) @ b"
  have 1: "w' = w @ ?pre @ ?rest"
    using g(1) b(1) by simp
  have 2: "\<forall>s. StatsCB s \<notin> set ?rest"
    using g(2) b(2) by auto
  have 3: "Flush \<in> set ?rest \<longleftrightarrow> 2 ^ 17 \<le> sint (gcOps te)"
    using b(2) by auto
  have 4: "2 ^ 17 \<le> sint (gcOps te) \<longrightarrow> (\<exists>g. ?rest = Flush # g)"
    by simp
  note t = WriteRow_gc_trail [OF assms refl 1]
  have 5: "statsCB te \<and> 2 ^ 16 \<le> sint (statOps te) \<longrightarrow> statOps te' = 0 \<or> statOps te' = 1"
    using b(5) g(4) by auto
  have 6: "\<not> (statsCB te \<and> 2 ^ 16 \<le> sint (statOps te))
       \<longrightarrow> statOps te' = statOps te \<or> statOps te' = statOps te + 1"
    using b(5) g(4) by auto
  have 7: "2 ^ 17 \<le> sint (gcOps te) \<longrightarrow> gcOps te' = 1 \<or> (gcOps te' = 0 \<and> res \<noteq> None)"
    using b(3,4) g(4) by (cases e) auto
  have 8: "\<not> 2 ^ 17 \<le> sint (gcOps te) \<longrightarrow> gcOps te' = gcOps te + 1"
    using b(4) g(3,4) by auto
  show ?thesis
    apply (intro conjI rates 5 6 7 8)
    apply (rule exI [of _ ?pre], rule exI [of _ ?rest])
    apply (intro conjI refl 1 2 3 4)
    using t apply blast
    using t apply blast
    done
qed

theorem C8_WriteRow_cadence_thresholds_witness:
  "WriteRow example_collab (example_writer 65536 131072) (2, ''two'') []
     = (None, (example_writer 1 1)\<lparr>stats := \<lparr>Additions = 1, Modifications = 0, SameVal = 0\<rparr>\<rparr>,
        [StatsCB \<lparr>Additions = 0, Modifications = 0, SameVal = 0\<rparr>, Flush, WriteRootValue, GC,
         InsertRow (2, ''two'')]) \<and>
   WriteRow example_collab (example_writer 65535 131071) (1, ''one'') []
     = (None, (example_writer 65535 131072)\<lparr>stats := \<lparr>Additions = 0, Modifications = 0, SameVal = 1\<rparr>\<rparr>,
        []) \<and>
   WriteRow (example_collab\<lparr>fails := (\<lambda>w c. if c = WriteRootValue then Some (Propagated ''disk'') else None)\<rparr>)
       (example_writer 0 131072) (2, ''two'') []
     = (Some (Propagated ''disk''), example_writer 0 0, [Flush, WriteRootValue])"
proof -
  let ?F = "example_collab\<lparr>fails := (\<lambda>w c. if c = WriteRootValue then Some (Propagated ''disk'') else None)\<rparr>"
  obtain res1 te1 w1 where a: "WriteRow example_collab (example_writer 65536 131072) (2, ''two'') [] = (res1, te1, w1)"
    by (cases "WriteRow example_collab (example_writer 65536 131072) (2, ''two'') []") auto
  have a': "w1 = [StatsCB \<lparr>Additions = 0, Modifications = 0, SameVal = 0\<rparr>, Flush, WriteRootValue, GC,
         InsertRow (2, ''two'')]" "res1 = None"
     "te1 = (example_writer 1 1)\<lparr>stats := \<lparr>Additions = 1, Modifications = 0, SameVal = 0\<rparr>\<rparr>"
    using a by (simp_all add: writer_defs)
  obtain res3 te3 w3 where c: "WriteRow ?F (example_writer 0 131072) (2, ''two'') [] = (res3, te3, w3)"
    by (cases "WriteRow ?F (example_writer 0 131072) (2, ''two'') []") auto
  have te3: "te3 = example_writer 0 0"
    using c by (simp add: writer_defs)
  have s: "sint (131072 :: int64) = 131072" "sint (0 :: int64) = 0" by simp_all
  from C8_WriteRow_cadence_thresholds [OF c]
  have c': "w3 = [Flush, WriteRootValue]" "res3 = Some (Propagated ''disk'')"
    by (auto simp: example_writer_def example_collab_def)
  have b: "WriteRow example_collab (example_writer 65535 131071) (1, ''one'') []
    = (None, (example_writer 65535 131072)\<lparr>stats := \<lparr>Additions = 0, Modifications = 0, SameVal = 1\<rparr>\<rparr>,
       [])"
    by (simp add: writer_defs)
  from C8_WriteRow_cadence_thresholds [OF a] C8_WriteRow_cadence_thresholds [OF b] a a' b c c' te3 show ?thesis
    by simp
qed

subsection \<open>Creating a table\<close>

text \<open>
  C9. \<open>NewCreatingWriter\<close> on a schema with no primary-key column returns
  \<open>ErrNoPK\<close> and has made no call at all: no map, table, root or editor exists,
  and there is no writer to give a row to. On a schema with a primary-key column, a
  writer that is returned is in insert-only mode and starts from the empty map, after
  the five calls that create the table and its editor; and one is returned whenever
  none of those calls fails.
\<close>

theorem C9_NewCreatingWriter_needs_primary_key:
  "(GetPKColsSize E outSch = 0 \<longrightarrow> NewCreatingWriter E dl outSch cb w = (Inl ErrNoPK, w)) \<and>
   (GetPKColsSize E outSch \<noteq> 0 \<and> NewCreatingWriter E dl outSch cb w = (Inr te, w')
      \<longrightarrow> insertOnly te \<and> initialData te = Map.empty \<and> tableSch te = outSch \<and>
          w' = w @ [NewMap, MarshalSchemaAsNomsValue, NewTable, PutTable (Name dl),
                    GetTableEditor (Name dl)]) \<and>
   (GetPKColsSize E outSch \<noteq> 0 \<and> (\<forall>v c. fails E v c = None)
      \<longrightarrow> (\<exists>te w'. NewCreatingWriter E dl outSch cb w = (Inr te, w')))"
  by (auto simp: NewCreatingWriter_def call_def split: option.splits)

theorem C9_NewCreatingWriter_needs_primary_key_witness:
  "NewCreatingWriter example_collab \<lparr>Name = ''t''\<rparr> 0 True [] = (Inl ErrNoPK, []) \<and>
   (\<exists>te. NewCreatingWriter example_collab \<lparr>Name = ''t''\<rparr> 2 True []
            = (Inr te, [NewMap, MarshalSchemaAsNomsValue, NewTable, PutTable ''t'',
                        GetTableEditor ''t'']) \<and>
          insertOnly te \<and> initialData te = Map.empty \<and> tableSch te = 2)"
proof -
  have z: "GetPKColsSize example_collab 0 = 0" and n: "GetPKColsSize example_collab 2 \<noteq> 0"
    and f: "\<forall>v c. fails example_collab v c = None"
    by (simp_all add: example_collab_def)
  from C9_NewCreatingWriter_needs_primary_key
         [of example_collab 0 "\<lparr>Name = ''t''\<rparr>" True "[]"] z
  have a: "NewCreatingWriter example_collab \<lparr>Name = ''t''\<rparr> 0 True [] = (Inl ErrNoPK, [])"
    by simp
  from C9_NewCreatingWriter_needs_primary_key
         [of example_collab 2 "\<lparr>Name = ''t''\<rparr>" True "[]"] n f
  obtain te w' where b: "NewCreatingWriter example_collab \<lparr>Name = ''t''\<rparr> 2 True [] = (Inr te, w')"
    by blast
  from C9_NewCreatingWriter_needs_primary_key
         [of example_collab 2 "\<lparr>Name = ''t''\<rparr>" True "[]" te w'] n b
  have "insertOnly te" "initialData te = Map.empty" "tableSch te = 2"
    "w' = [NewMap, MarshalSchemaAsNomsValue, NewTable, PutTable ''t'', GetTableEditor ''t'']"
    by simp_all
  with a b show ?thesis by simp
qed

end
